theory Spec2Isabelle
  imports Main
begin

section \<open>Data model of \<^verbatim>\<open>multi_library_class_loader.h\<close>\<close>

text \<open>
  \<^verbatim>\<open>typedef std::string LibraryPath;\<close> A \<^verbatim>\<open>std::string\<close> is a sequence of bytes.

  The template parameter \<^verbatim>\<open>Base\<close> of the member templates is a C++ type.  It is passed
  here as an explicit argument, a name of the base class.
\<close>

type_synonym LibraryPath = string
type_synonym Base = string

text \<open>
  The exceptions and faults of the calls.  \<^verbatim>\<open>plugins::CreateClassException\<close> is the only
  exception the header throws (lines 75 and 111; its message text is not modelled); the
  specification calls it \<^verbatim>\<open>ClassNotFoundError\<close>.  \<open>NullPointerDereference\<close> stands for a
  member call through a \<^verbatim>\<open>ClassLoader*\<close> that is \<^verbatim>\<open>NULL\<close>.  \<open>LibraryNotFoundError\<close> and
  \<open>LoadError\<close> are the two further errors the specification names.
\<close>

datatype error =
    CreateClassException
  | NullPointerDereference
  | LibraryNotFoundError
  | LoadError

text \<open>
  A created plugin object remembers the library whose factory made it, its base class and
  its concrete class.  \<^verbatim>\<open>boost::shared_ptr<Base>\<close> and \<^verbatim>\<open>Base*\<close> are the two ways the
  facade hands it out.
\<close>

datatype plugin = Plugin (origin: LibraryPath) (base_class: Base) (derived_class: string)

datatype plugin_instance = SharedPtr plugin | RawPtr plugin

subsection \<open>The per-library loader (external collaborator)\<close>

text \<open>
  Modelled from the spec: \<^verbatim>\<open>class_loader.h\<close>, which declares \<^verbatim>\<open>plugins::ClassLoader\<close>, is not
  part of the sources.  Section 3 of the specification: a Library Loader holds a
  loaded-library handle and a factory table keyed by (capability, class name), and has an
  active-instance counter.
\<close>

record ClassLoader =
  library :: LibraryPath
  factory_table :: "(Base \<times> string) list"
  active_instance_count :: nat

text \<open>
  Modelled from the spec: section 6, \<^verbatim>\<open>availableClasses(capability)\<close> gives the sequence of
  names registered under the capability.
\<close>

definition ClassLoader_getAvailableClasses :: "ClassLoader \<Rightarrow> Base \<Rightarrow> string list" where
  "ClassLoader_getAvailableClasses l B = map snd (filter (\<lambda>e. fst e = B) (factory_table l))"

text \<open>
  Modelled from the spec: section 6, \<^verbatim>\<open>classAvailable(capability, name)\<close>.
\<close>

definition ClassLoader_isClassAvailable :: "ClassLoader \<Rightarrow> Base \<Rightarrow> string \<Rightarrow> bool" where
  "ClassLoader_isClassAvailable l B class_name = List.member (factory_table l) (B, class_name)"

text \<open>
  Modelled from the spec: section 6, \<^verbatim>\<open>createManaged(capability, name)\<close> gives an instance or
  fails with \<^verbatim>\<open>ClassNotFoundError\<close>; sections 3 and 4.4: a managed instance counts towards
  its loader's active instances.  The loader after the call is returned with the instance.
\<close>

definition ClassLoader_createInstance ::
  "ClassLoader \<Rightarrow> Base \<Rightarrow> string \<Rightarrow> error + (plugin_instance \<times> ClassLoader)" where
  "ClassLoader_createInstance l B class_name =
     (if ClassLoader_isClassAvailable l B class_name
      then Inr (SharedPtr (Plugin (library l) B class_name),
                l\<lparr>active_instance_count := Suc (active_instance_count l)\<rparr>)
      else Inl CreateClassException)"

text \<open>
  Modelled from the spec: section 6, \<^verbatim>\<open>createUnmanaged(capability, name)\<close>; section 3: an
  unmanaged instance has no coupling to the loader's count, so the loader is unchanged.
\<close>

definition ClassLoader_createUnmanagedInstance ::
  "ClassLoader \<Rightarrow> Base \<Rightarrow> string \<Rightarrow> error + plugin_instance" where
  "ClassLoader_createUnmanagedInstance l B class_name =
     (if ClassLoader_isClassAvailable l B class_name
      then Inr (RawPtr (Plugin (library l) B class_name))
      else Inl CreateClassException)"

subsection \<open>The registry: \<^verbatim>\<open>LibraryToClassLoaderMap\<close>\<close>

text \<open>
  \<^verbatim>\<open>LibraryToClassLoaderMap\<close> (line 40) maps a library path to a \<^verbatim>\<open>ClassLoader*\<close>, and
  \<^verbatim>\<open>active_class_loaders_\<close> (line 221) is the registry of the facade.  No function that
  inserts into the map, erases from it or iterates it has its body in the header.

  Modelled from the spec: section 3, the Registry maps identifier to Library Loader, with
  at most one Loader per identifier at any time, and its iteration order equals
  registration (load) order, stable for the Registry's lifetime.  The registry is the list
  of its entries in that order.  Every \<^verbatim>\<open>ClassLoader*\<close> stored in it is owned by its entry,
  so the entry holds the loader itself; a pointer that may be \<^verbatim>\<open>NULL\<close> is a
  \<^typ>\<open>ClassLoader option\<close>.
\<close>

type_synonym LibraryToClassLoaderMap = "(LibraryPath \<times> ClassLoader) list"
type_synonym ClassLoaderVector = "ClassLoader list"

text \<open>Lookup of a key: the loader stored under it, if any.\<close>

fun map_find :: "LibraryPath \<Rightarrow> LibraryToClassLoaderMap \<Rightarrow> ClassLoader option" where
  "map_find k [] = None"
| "map_find k ((k', v) # m) = (if k' = k then Some v else map_find k m)"

text \<open>
  Assignment to the loader stored under a key: the entry keeps its place.  A key that is
  not in the registry is entered last.
\<close>

fun map_assign ::
  "LibraryPath \<Rightarrow> ClassLoader \<Rightarrow> LibraryToClassLoaderMap \<Rightarrow> LibraryToClassLoaderMap" where
  "map_assign k v [] = [(k, v)]"
| "map_assign k v ((k', v') # m) =
     (if k' = k then (k', v) # m else (k', v') # map_assign k v m)"


text \<open>
  \<^verbatim>\<open>std::find(first, last, value)\<close> on a vector: the position of the first element equal
  to the value, or the position of \<^verbatim>\<open>end()\<close> (the length) when there is none.
\<close>

fun std_find :: "'a list \<Rightarrow> 'a \<Rightarrow> nat" where
  "std_find [] v = 0"
| "std_find (x # xs) v = (if x = v then 0 else Suc (std_find xs v))"

subsection \<open>The facade\<close>

text \<open>
  The data members of \<^verbatim>\<open>MultiLibraryClassLoader\<close> (lines 220 to 222), without the trailing
  underscore of their names.  \<^verbatim>\<open>loader_mutex_\<close> has no sequential content and is left out.
\<close>

record MultiLibraryClassLoader =
  enable_ondemand_loadunload :: bool
  active_class_loaders :: LibraryToClassLoaderMap

text \<open>
  What a call returns: the value or the error, and the facade after the call.
\<close>

type_synonym 'a outcome = "(error + 'a) \<times> MultiLibraryClassLoader"

text \<open>
  Modelled from the spec: the constructor is only declared in the header (line 50).
  Section 6: construction with an on-demand flag; no library is registered yet.
\<close>

definition new_MultiLibraryClassLoader :: "bool \<Rightarrow> MultiLibraryClassLoader" where
  "new_MultiLibraryClassLoader flag =
     \<lparr>enable_ondemand_loadunload = flag, active_class_loaders = []\<rparr>"

text \<open>Line 204.\<close>

definition isOnDemandLoadUnloadEnabled :: "MultiLibraryClassLoader \<Rightarrow> bool" where
  "isOnDemandLoadUnloadEnabled s = enable_ondemand_loadunload s"

text \<open>
  Modelled from the spec: \<^verbatim>\<open>getClassLoaderForLibrary\<close> is only declared (line 211), with the
  comment that it returns \<^verbatim>\<open>NULL\<close> if the library is not found.  Section 4.1, \<^verbatim>\<open>lookup(id)\<close>:
  the loader for the identifier, or "not found".
\<close>

definition getClassLoaderForLibrary ::
  "LibraryPath \<Rightarrow> MultiLibraryClassLoader \<Rightarrow> ClassLoader option" where
  "getClassLoaderForLibrary library_path s = map_find library_path (active_class_loaders s)"

text \<open>
  Modelled from the spec: \<^verbatim>\<open>getAllAvailableClassLoaders\<close> is only declared (line 216).
  Section 4.1, \<^verbatim>\<open>allLoaders()\<close>: the sequence of the currently open loaders, in
  registration order.
\<close>

definition getAllAvailableClassLoaders :: "MultiLibraryClassLoader \<Rightarrow> ClassLoaderVector" where
  "getAllAvailableClassLoaders s = map snd (active_class_loaders s)"

text \<open>
  Modelled from the spec: \<^verbatim>\<open>isLibraryAvailable\<close> is only declared (line 146).  A library is
  available when the lookup of its identifier finds a loader.
\<close>

definition isLibraryAvailable :: "LibraryPath \<Rightarrow> MultiLibraryClassLoader \<Rightarrow> bool" where
  "isLibraryAvailable library_path s =
     (case getClassLoaderForLibrary library_path s of None \<Rightarrow> False | Some l \<Rightarrow> True)"

text \<open>
  Modelled from the spec: \<^verbatim>\<open>getRegisteredLibraries\<close> is only declared (line 185).
  Section 4.1, \<^verbatim>\<open>listAll()\<close>: the sequence of the currently registered identifiers in
  registration order.
\<close>

definition getRegisteredLibraries :: "MultiLibraryClassLoader \<Rightarrow> LibraryPath list" where
  "getRegisteredLibraries s = map fst (active_class_loaders s)"

text \<open>
  The libraries that can be opened, and the factories each one registers when it is
  opened: the environment of \<^verbatim>\<open>loadLibrary\<close>.
\<close>

type_synonym Libraries = "LibraryPath \<Rightarrow> (Base \<times> string) list option"

text \<open>
  Modelled from the spec: \<^verbatim>\<open>loadLibrary\<close> is only declared (line 191).  Section 4.1,
  \<^verbatim>\<open>register(id)\<close>: idempotent; loads the loader for the identifier if absent, no-op
  otherwise.  Section 6: opening fails with \<^verbatim>\<open>LoadError\<close> if the library cannot be opened.
  Section 3: iteration order equals registration order, so the new loader is entered last.
\<close>

definition loadLibrary ::
  "Libraries \<Rightarrow> LibraryPath \<Rightarrow> MultiLibraryClassLoader \<Rightarrow> unit outcome" where
  "loadLibrary libs library_path s =
     (if isLibraryAvailable library_path s then (Inr (), s)
      else case libs library_path of
             None \<Rightarrow> (Inl LoadError, s)
           | Some table \<Rightarrow>
               (Inr (),
                s\<lparr>active_class_loaders :=
                    active_class_loaders s @
                    [(library_path,
                      \<lparr>library = library_path, factory_table = table,
                       active_instance_count = 0\<rparr>)]\<rparr>))"


text \<open>
  A managed creation changes the loader it goes through (its instance count).  The
  pointer \<^verbatim>\<open>active_loaders.at(c)\<close> points to the loader of the \<open>c\<close>-th entry of the
  registry, so the changed loader is stored there; the key of the entry stays.
\<close>

definition store_at :: "nat \<Rightarrow> ClassLoader \<Rightarrow> MultiLibraryClassLoader \<Rightarrow> MultiLibraryClassLoader" where
  "store_at c l s =
     s\<lparr>active_class_loaders :=
         (active_class_loaders s)[c := (fst (active_class_loaders s ! c), l)]\<rparr>"

text \<open>
  Lines 64 to 76, \<^verbatim>\<open>createInstance<Base>(class_name)\<close>.  The \<^verbatim>\<open>for\<close> loop over the index
  \<open>c\<close>: the first loader that reports the class available creates the instance and the
  call returns; after the loop the exception is thrown.
\<close>

function createInstance_loop ::
  "Base \<Rightarrow> string \<Rightarrow> MultiLibraryClassLoader \<Rightarrow> ClassLoaderVector \<Rightarrow> nat \<Rightarrow> plugin_instance outcome" where
  "createInstance_loop B class_name s active_loaders c =
     (if c < length active_loaders then
        (let current = active_loaders ! c in
         if ClassLoader_isClassAvailable current B class_name
         then (case ClassLoader_createInstance current B class_name of
                 Inl e \<Rightarrow> (Inl e, s)
               | Inr (obj, current') \<Rightarrow> (Inr obj, store_at c current' s))
         else createInstance_loop B class_name s active_loaders (Suc c))
      else (Inl CreateClassException, s))"
  by pat_completeness auto
termination
  by (relation "measure (\<lambda>(B, class_name, s, active_loaders, c). length active_loaders - c)") auto

definition createInstance :: "Base \<Rightarrow> string \<Rightarrow> MultiLibraryClassLoader \<Rightarrow> plugin_instance outcome" where
  "createInstance B class_name s =
     (let active_loaders = getAllAvailableClassLoaders s
      in createInstance_loop B class_name s active_loaders 0)"

text \<open>
  Lines 86 to 90, \<^verbatim>\<open>createInstance<Base>(class_name, library_path)\<close>: the member call goes
  through the pointer that \<^verbatim>\<open>getClassLoaderForLibrary\<close> returns, without a test.
\<close>

definition createInstance_lib ::
  "Base \<Rightarrow> string \<Rightarrow> LibraryPath \<Rightarrow> MultiLibraryClassLoader \<Rightarrow> plugin_instance outcome" where
  "createInstance_lib B class_name library_path s =
     (case getClassLoaderForLibrary library_path s of
        None \<Rightarrow> (Inl NullPointerDereference, s)
      | Some loader \<Rightarrow>
          (case ClassLoader_createInstance loader B class_name of
             Inl e \<Rightarrow> (Inl e, s)
           | Inr (obj, loader') \<Rightarrow>
               (Inr obj,
                s\<lparr>active_class_loaders :=
                    map_assign library_path loader' (active_class_loaders s)\<rparr>)))"

text \<open>Lines 100 to 112, \<^verbatim>\<open>createUnmanagedInstance<Base>(class_name)\<close>.\<close>

function createUnmanagedInstance_loop ::
  "Base \<Rightarrow> string \<Rightarrow> MultiLibraryClassLoader \<Rightarrow> ClassLoaderVector \<Rightarrow> nat \<Rightarrow> plugin_instance outcome" where
  "createUnmanagedInstance_loop B class_name s active_loaders c =
     (if c < length active_loaders then
        (let current = active_loaders ! c in
         if ClassLoader_isClassAvailable current B class_name
         then (case ClassLoader_createUnmanagedInstance current B class_name of
                 Inl e \<Rightarrow> (Inl e, s)
               | Inr obj \<Rightarrow> (Inr obj, s))
         else createUnmanagedInstance_loop B class_name s active_loaders (Suc c))
      else (Inl CreateClassException, s))"
  by pat_completeness auto
termination
  by (relation "measure (\<lambda>(B, class_name, s, active_loaders, c). length active_loaders - c)") auto

definition createUnmanagedInstance ::
  "Base \<Rightarrow> string \<Rightarrow> MultiLibraryClassLoader \<Rightarrow> plugin_instance outcome" where
  "createUnmanagedInstance B class_name s =
     (let active_loaders = getAllAvailableClassLoaders s
      in createUnmanagedInstance_loop B class_name s active_loaders 0)"

text \<open>Lines 122 to 126, \<^verbatim>\<open>createUnmanagedInstance<Base>(class_name, library_path)\<close>.\<close>

definition createUnmanagedInstance_lib ::
  "Base \<Rightarrow> string \<Rightarrow> LibraryPath \<Rightarrow> MultiLibraryClassLoader \<Rightarrow> plugin_instance outcome" where
  "createUnmanagedInstance_lib B class_name library_path s =
     (case getClassLoaderForLibrary library_path s of
        None \<Rightarrow> (Inl NullPointerDereference, s)
      | Some loader \<Rightarrow>
          (case ClassLoader_createUnmanagedInstance loader B class_name of
             Inl e \<Rightarrow> (Inl e, s)
           | Inr obj \<Rightarrow> (Inr obj, s)))"

text \<open>
  Lines 153 to 165, \<^verbatim>\<open>getAvailableClasses<Base>()\<close>: each loader's classes are inserted at
  the end of \<^verbatim>\<open>available_classes\<close>.
\<close>

function getAvailableClasses_loop ::
  "Base \<Rightarrow> ClassLoaderVector \<Rightarrow> nat \<Rightarrow> string list \<Rightarrow> string list" where
  "getAvailableClasses_loop B loaders c available_classes =
     (if c < length loaders then
        (let current = loaders ! c;
             loader_classes = ClassLoader_getAvailableClasses current B
         in getAvailableClasses_loop B loaders (Suc c) (available_classes @ loader_classes))
      else available_classes)"
  by pat_completeness auto
termination
  by (relation "measure (\<lambda>(B, loaders, c, available_classes). length loaders - c)") auto

definition getAvailableClasses :: "Base \<Rightarrow> MultiLibraryClassLoader \<Rightarrow> string list" where
  "getAvailableClasses B s =
     (let loaders = getAllAvailableClassLoaders s
      in getAvailableClasses_loop B loaders 0 [])"

text \<open>
  Lines 134 to 139, \<^verbatim>\<open>isClassAvailable<Base>(class_name)\<close>: \<^verbatim>\<open>std::find\<close> over the result of
  \<^verbatim>\<open>getAvailableClasses<Base>()\<close>, compared with \<^verbatim>\<open>end()\<close>.
\<close>

definition isClassAvailable :: "Base \<Rightarrow> string \<Rightarrow> MultiLibraryClassLoader \<Rightarrow> bool" where
  "isClassAvailable B class_name s =
     (let available_classes = getAvailableClasses B s
      in length available_classes \<noteq> std_find available_classes class_name)"

text \<open>
  Lines 171 to 179, \<^verbatim>\<open>getAvailableClassesForLibrary<Base>(library_path)\<close>: the loader is
  used only under \<^verbatim>\<open>if(loader)\<close>.  The result is a sum so that a fault of the call would
  be a value.
\<close>

definition getAvailableClassesForLibrary ::
  "Base \<Rightarrow> LibraryPath \<Rightarrow> MultiLibraryClassLoader \<Rightarrow> error + string list" where
  "getAvailableClassesForLibrary B library_path s =
     (let loader = getClassLoaderForLibrary library_path s;
          available_classes = []
      in case loader of
           None \<Rightarrow> Inr available_classes
         | Some l \<Rightarrow> Inr (ClassLoader_getAvailableClasses l B))"

subsection \<open>Facades that a program can build\<close>



subsection \<open>Concrete libraries for the examples\<close>

text \<open>
  Three libraries, each with a factory for class \<open>X\<close> of base \<open>Base\<close>; \<open>/libA\<close> and
  \<open>/libC\<close> also have \<open>Y\<close>, and \<open>/libB\<close> also has \<open>Z\<close>.
\<close>

definition installed_libs :: Libraries where
  "installed_libs p =
     (if p = ''/libA'' then Some [(''Base'', ''X''), (''Base'', ''Y'')]
      else if p = ''/libB'' then Some [(''Base'', ''Z''), (''Base'', ''X'')]
      else if p = ''/libC'' then Some [(''Base'', ''Y''), (''Base'', ''X'')]
      else None)"

text \<open>\<open>/libB\<close> is loaded first, then \<open>/libA\<close>.\<close>

definition facade_B :: MultiLibraryClassLoader where
  "facade_B = snd (loadLibrary installed_libs ''/libB'' (new_MultiLibraryClassLoader False))"

definition facade_B_then_A :: MultiLibraryClassLoader where
  "facade_B_then_A = snd (loadLibrary installed_libs ''/libA'' facade_B)"

text \<open>The other order: \<open>/libA\<close> is loaded first, then \<open>/libB\<close>.\<close>

definition facade_A_then_B :: MultiLibraryClassLoader where
  "facade_A_then_B =
     snd (loadLibrary installed_libs ''/libB''
       (snd (loadLibrary installed_libs ''/libA'' (new_MultiLibraryClassLoader False))))"

text \<open>The loaders of these libraries, as \<^verbatim>\<open>loadLibrary\<close> makes them.\<close>

definition loader_A :: ClassLoader where
  "loader_A = \<lparr>library = ''/libA'', factory_table = [(''Base'', ''X''), (''Base'', ''Y'')],
     active_instance_count = 0\<rparr>"

definition loader_B :: ClassLoader where
  "loader_B = \<lparr>library = ''/libB'', factory_table = [(''Base'', ''Z''), (''Base'', ''X'')],
     active_instance_count = 0\<rparr>"

text \<open>A facade with the on-demand flag set and no library loaded.\<close>

definition facade_ondemand :: MultiLibraryClassLoader where
  "facade_ondemand = new_MultiLibraryClassLoader True"

section \<open>Lemmas\<close>

text \<open>The equations of the loops are unfolded one step at a time.\<close>

declare createInstance_loop.simps [simp del]
declare createUnmanagedInstance_loop.simps [simp del]
declare getAvailableClasses_loop.simps [simp del]

subsection \<open>The map\<close>

lemma map_find_None_iff: "map_find k m = None \<longleftrightarrow> k \<notin> set (map fst m)"
  by (induction m) (auto simp del: set_map split: if_splits)

lemma map_find_assign_same: "map_find k (map_assign k v m) = Some v"
  by (induction m) auto

lemma map_find_assign_other: "q \<noteq> k \<Longrightarrow> map_find q (map_assign k v m) = map_find q m"
  by (induction m) auto









subsection \<open>The invariant\<close>










lemma createUnmanagedInstance_loop_state [simp]:
  "snd (createUnmanagedInstance_loop B n s ls c) = s"
proof (induction B n s ls c rule: createUnmanagedInstance_loop.induct)
  case (1 B n s ls c)
  show ?case
  proof (cases "c < length ls \<and> \<not> ClassLoader_isClassAvailable (ls ! c) B n")
    case True
    then have "createUnmanagedInstance_loop B n s ls c =
        createUnmanagedInstance_loop B n s ls (Suc c)"
      by (subst createUnmanagedInstance_loop.simps) (simp add: Let_def)
    with 1 True show ?thesis by simp
  next
    case False
    then show ?thesis
      by (subst createUnmanagedInstance_loop.simps)
        (auto simp: ClassLoader_createUnmanagedInstance_def Let_def)
  qed
qed




subsection \<open>The loops\<close>


lemma std_find_le: "std_find xs v \<le> length xs"
  by (induction xs) simp_all

lemma std_find_end: "length xs \<noteq> std_find xs v \<longleftrightarrow> v \<in> set xs"
proof (induction xs)
  case Nil
  show ?case by simp
next
  case (Cons x xs)
  with std_find_le [of xs v] show ?case by auto
qed


lemma map_find_Some_mem: "map_find k m = Some l \<Longrightarrow> (k, l) \<in> set m"
  by (induction m) (auto split: if_splits)

lemma createInstance_loop_none:
  "\<forall>l\<in>set (drop c ls). \<not> ClassLoader_isClassAvailable l B n \<Longrightarrow>
   createInstance_loop B n s ls c = (Inl CreateClassException, s)"
proof (induction B n s ls c rule: createInstance_loop.induct)
  case (1 B n s ls c)
  show ?case
  proof (cases "c < length ls")
    case False
    then show ?thesis by (subst createInstance_loop.simps) simp
  next
    case True
    then have d: "drop c ls = ls ! c # drop (Suc c) ls"
      by (simp add: Cons_nth_drop_Suc)
    with "1.prems" have no: "\<not> ClassLoader_isClassAvailable (ls ! c) B n"
      and rest: "\<forall>l\<in>set (drop (Suc c) ls). \<not> ClassLoader_isClassAvailable l B n"
      by simp_all
    from True no have "createInstance_loop B n s ls c = createInstance_loop B n s ls (Suc c)"
      by (subst createInstance_loop.simps) (simp add: Let_def)
    with "1.IH" [OF True refl no rest] show ?thesis by simp
  qed
qed

lemma createUnmanagedInstance_loop_none:
  "\<forall>l\<in>set (drop c ls). \<not> ClassLoader_isClassAvailable l B n \<Longrightarrow>
   createUnmanagedInstance_loop B n s ls c = (Inl CreateClassException, s)"
proof (induction B n s ls c rule: createUnmanagedInstance_loop.induct)
  case (1 B n s ls c)
  show ?case
  proof (cases "c < length ls")
    case False
    then show ?thesis by (subst createUnmanagedInstance_loop.simps) simp
  next
    case True
    then have d: "drop c ls = ls ! c # drop (Suc c) ls"
      by (simp add: Cons_nth_drop_Suc)
    with "1.prems" have no: "\<not> ClassLoader_isClassAvailable (ls ! c) B n"
      and rest: "\<forall>l\<in>set (drop (Suc c) ls). \<not> ClassLoader_isClassAvailable l B n"
      by simp_all
    from True no have "createUnmanagedInstance_loop B n s ls c =
        createUnmanagedInstance_loop B n s ls (Suc c)"
      by (subst createUnmanagedInstance_loop.simps) (simp add: Let_def)
    with "1.IH" [OF True refl no rest] show ?thesis by simp
  qed
qed



lemma createInstance_loop_failed:
  "fst (createInstance_loop B n s ls c) = Inl e \<Longrightarrow> snd (createInstance_loop B n s ls c) = s"
proof (induction B n s ls c rule: createInstance_loop.induct)
  case (1 B n s ls c)
  show ?case
  proof (cases "c < length ls")
    case False
    then show ?thesis by (subst createInstance_loop.simps) simp
  next
    case inside: True
    show ?thesis
    proof (cases "ClassLoader_isClassAvailable (ls ! c) B n")
      case True
      with inside have "fst (createInstance_loop B n s ls c) =
          Inr (SharedPtr (Plugin (library (ls ! c)) B n))"
        by (subst createInstance_loop.simps) (simp add: Let_def ClassLoader_createInstance_def)
      with "1.prems" show ?thesis by simp
    next
      case False
      with inside have "createInstance_loop B n s ls c = createInstance_loop B n s ls (Suc c)"
        by (subst createInstance_loop.simps) (simp add: Let_def)
      with "1.IH" [OF inside refl False] "1.prems" show ?thesis by simp
    qed
  qed
qed

section \<open>The claims\<close>

subsection \<open>Claim C1: which loader creates the instance\<close>



subsection \<open>Claim C2: creation from a library that is not registered\<close>

text \<open>
  Claim C2 asks for \<^verbatim>\<open>LibraryNotFoundError\<close> when the library identifier of
  \<^verbatim>\<open>createInstance(class_name, library_path)\<close> or of
  \<^verbatim>\<open>createUnmanagedInstance(class_name, library_path)\<close> is not registered.  Lines 89 and
  125 call the member function through the pointer returned by
  \<^verbatim>\<open>getClassLoaderForLibrary\<close>, which is \<^verbatim>\<open>NULL\<close> then; on a new facade both calls are a
  null pointer dereference and not that error.
\<close>

theorem createInstance_unregistered_library_null:
  "\<not> isLibraryAvailable ''/libA'' (new_MultiLibraryClassLoader False) \<and>
   createInstance_lib ''Base'' ''X'' ''/libA'' (new_MultiLibraryClassLoader False) =
     (Inl NullPointerDereference, new_MultiLibraryClassLoader False) \<and>
   createUnmanagedInstance_lib ''Base'' ''X'' ''/libA'' (new_MultiLibraryClassLoader False) =
     (Inl NullPointerDereference, new_MultiLibraryClassLoader False) \<and>
   fst (createInstance_lib ''Base'' ''X'' ''/libA'' (new_MultiLibraryClassLoader False)) \<noteq>
     Inl LibraryNotFoundError"
  by code_simp

subsection \<open>Claim C3: the on-demand flag and creation\<close>

text \<open>
  Claim C3 says that a facade constructed with the on-demand flag set loads a library
  that is not registered when \<^verbatim>\<open>createInstance(class_name, library_path)\<close> asks for it,
  as the comments of lines 48 and 202 announce.  Line 89 does not consult the flag: on a
  facade with the flag set and nothing loaded, with \<open>/libA\<close> installed and holding class
  \<open>X\<close>, the call goes through the \<^verbatim>\<open>NULL\<close> pointer of
  \<^verbatim>\<open>getClassLoaderForLibrary\<close> and creates nothing.
\<close>

theorem createInstance_ondemand_unregistered_null:
  "isOnDemandLoadUnloadEnabled facade_ondemand \<and>
   installed_libs ''/libA'' = Some [(''Base'', ''X''), (''Base'', ''Y'')] \<and>
   \<not> isLibraryAvailable ''/libA'' facade_ondemand \<and>
   fst (createInstance_lib ''Base'' ''X'' ''/libA'' facade_ondemand) = Inl NullPointerDereference \<and>
   fst (createInstance_lib ''Base'' ''X'' ''/libA'' facade_ondemand) \<noteq>
     Inr (SharedPtr (Plugin ''/libA'' ''Base'' ''X''))"
  by code_simp

subsection \<open>Claim C4: no loader has the class\<close>

text \<open>
  Claim C4: if no registered loader reports the class available for the base class,
  \<^verbatim>\<open>createInstance(class_name)\<close> and \<^verbatim>\<open>createUnmanagedInstance(class_name)\<close> fail with
  \<^verbatim>\<open>CreateClassException\<close>, the exception the specification calls \<^verbatim>\<open>ClassNotFoundError\<close>.
\<close>

theorem createInstance_no_loader_throws:
  assumes "\<forall>l\<in>set (getAllAvailableClassLoaders s). \<not> ClassLoader_isClassAvailable l B class_name"
  shows "fst (createInstance B class_name s) = Inl CreateClassException \<and>
         fst (createUnmanagedInstance B class_name s) = Inl CreateClassException"
  using assms
  by (simp add: createInstance_def createUnmanagedInstance_def Let_def
      createInstance_loop_none createUnmanagedInstance_loop_none)

text \<open>Neither of the two loaded libraries has a class \<open>W\<close>.\<close>

theorem createInstance_no_loader_throws_witness:
  "getAllAvailableClassLoaders facade_A_then_B = [loader_A, loader_B] \<and>
   \<not> ClassLoader_isClassAvailable loader_A ''Base'' ''W'' \<and>
   \<not> ClassLoader_isClassAvailable loader_B ''Base'' ''W'' \<and>
   fst (createInstance ''Base'' ''W'' facade_A_then_B) = Inl CreateClassException \<and>
   fst (createUnmanagedInstance ''Base'' ''W'' facade_A_then_B) = Inl CreateClassException"
proof -
  have g: "getAllAvailableClassLoaders facade_A_then_B = [loader_A, loader_B]"
    by code_simp
  have na: "\<not> ClassLoader_isClassAvailable loader_A ''Base'' ''W''" by code_simp
  have nb: "\<not> ClassLoader_isClassAvailable loader_B ''Base'' ''W''" by code_simp
  from g na nb have h: "\<forall>l\<in>set (getAllAvailableClassLoaders facade_A_then_B).
      \<not> ClassLoader_isClassAvailable l ''Base'' ''W''"
    by simp
  from createInstance_no_loader_throws [OF h] g na nb show ?thesis by simp
qed

subsection \<open>Claim C5: availability and enumeration agree\<close>

text \<open>
  Claim C5: \<^verbatim>\<open>isClassAvailable(class_name)\<close> is true exactly if the class name is an element
  of the sequence that \<^verbatim>\<open>getAvailableClasses()\<close> returns for the same base class.
\<close>

theorem isClassAvailable_iff_listed:
  "isClassAvailable B class_name s \<longleftrightarrow> class_name \<in> set (getAvailableClasses B s)"
  by (simp add: isClassAvailable_def Let_def std_find_end)

subsection \<open>Claim C6: the enumeration of all classes\<close>



subsection \<open>Claim C7: the enumeration of one library\<close>

text \<open>
  Claim C7: for a library identifier that is not registered,
  \<^verbatim>\<open>getAvailableClassesForLibrary(library_path)\<close> returns the empty sequence and does not
  fail; for a registered one it returns the class list of the one loader registered under
  that identifier.
\<close>

theorem getAvailableClassesForLibrary_cases:
  "(\<not> isLibraryAvailable library_path s \<longrightarrow>
      getAvailableClassesForLibrary B library_path s = Inr []) \<and>
   (isLibraryAvailable library_path s \<longrightarrow>
      (\<exists>l\<in>set (getAllAvailableClassLoaders s).
         getClassLoaderForLibrary library_path s = Some l \<and>
         getAvailableClassesForLibrary B library_path s =
           Inr (ClassLoader_getAvailableClasses l B)))"
proof (cases "getClassLoaderForLibrary library_path s")
  case None
  then show ?thesis
    by (simp add: isLibraryAvailable_def getAvailableClassesForLibrary_def)
next
  case (Some l)
  then have "(library_path, l) \<in> set (active_class_loaders s)"
    by (simp add: getClassLoaderForLibrary_def map_find_Some_mem)
  then have "l \<in> set (getAllAvailableClassLoaders s)"
    by (auto simp: getAllAvailableClassLoaders_def intro: rev_image_eqI)
  with Some show ?thesis
    by (simp add: isLibraryAvailable_def getAvailableClassesForLibrary_def)
qed

text \<open>\<open>/libC\<close> is not registered; \<open>/libB\<close> is.\<close>

theorem getAvailableClassesForLibrary_cases_witness:
  "\<not> isLibraryAvailable ''/libC'' facade_B_then_A \<and>
   getAvailableClassesForLibrary ''Base'' ''/libC'' facade_B_then_A = Inr [] \<and>
   isLibraryAvailable ''/libB'' facade_B_then_A \<and>
   getClassLoaderForLibrary ''/libB'' facade_B_then_A = Some loader_B \<and>
   getAvailableClassesForLibrary ''Base'' ''/libB'' facade_B_then_A = Inr [''Z'', ''X'']"
proof -
  have n: "\<not> isLibraryAvailable ''/libC'' facade_B_then_A" by code_simp
  have y: "isLibraryAvailable ''/libB'' facade_B_then_A" by code_simp
  have l: "getClassLoaderForLibrary ''/libB'' facade_B_then_A = Some loader_B" by code_simp
  have c: "ClassLoader_getAvailableClasses loader_B ''Base'' = [''Z'', ''X'']" by code_simp
  from getAvailableClassesForLibrary_cases [of "''/libC''" facade_B_then_A "''Base''"]
    getAvailableClassesForLibrary_cases [of "''/libB''" facade_B_then_A "''Base''"]
    n y l c
  show ?thesis by auto
qed

subsection \<open>Claim C8: a creation that fails\<close>

text \<open>
  The creation function without a library identifier ends in a \<^verbatim>\<open>throw\<close> (line 75) when no
  loader has the class, and the facade is then as it was before the call.
\<close>

lemma createInstance_failed_state:
  "fst (createInstance B class_name s) = Inl e \<Longrightarrow> snd (createInstance B class_name s) = s"
  by (simp add: createInstance_def Let_def createInstance_loop_failed)


subsection \<open>Claim C10: availability of a library\<close>

text \<open>
  Claim C10: \<^verbatim>\<open>isLibraryAvailable(library_path)\<close> is true exactly if the identifier is an
  element of the sequence \<^verbatim>\<open>getRegisteredLibraries()\<close> returns, that is, a key of the
  facade's map.
\<close>

theorem isLibraryAvailable_iff_registered:
  "(isLibraryAvailable library_path s \<longleftrightarrow> library_path \<in> set (getRegisteredLibraries s)) \<and>
   set (getRegisteredLibraries s) = fst ` set (active_class_loaders s)"
proof -
  have "isLibraryAvailable library_path s \<longleftrightarrow>
      map_find library_path (active_class_loaders s) \<noteq> None"
    by (simp add: isLibraryAvailable_def getClassLoaderForLibrary_def split: option.splits)
  also have "\<dots> \<longleftrightarrow> library_path \<in> set (map fst (active_class_loaders s))"
    by (simp only: map_find_None_iff not_not)
  finally show ?thesis by (simp add: getRegisteredLibraries_def)
qed

end
